theory Spec2Isabelle
  imports Complex_Main
begin

section \<open>The per-object feature generator of napari-features\<close>

text \<open>
  This theory embeds \<^verbatim>\<open>src/napari_features/generator.py\<close>: the memoising decorator
  \<^verbatim>\<open>cache\<close>, the class \<^verbatim>\<open>Generator\<close> with its constructor and its \<^verbatim>\<open>__next__\<close>, the
  fourteen properties under \<^verbatim>\<open>@cache\<close> (from \<^verbatim>\<open>area\<close> to \<^verbatim>\<open>spatial_moments\<close> and
  \<^verbatim>\<open>_feature_color_object_maximum_intensity\<close>), the feature \<^verbatim>\<open>_feature_metadata_object_index\<close>
  and the features that return the constant 0.0. The routines of scikit-image that the
  properties call are parameters of the model.

  Python exceptions are values of the type \<open>error\<close>. A method of the generator is a function
  from the generator to a result and the generator afterwards; the generator is returned
  also when the method raises, because what a method wrote to \<^verbatim>\<open>self\<close> before it raised
  stays written.
\<close>

subsection \<open>Arrays\<close>

text \<open>
  A numpy array is its shape and its elements in row-major (C) order. The elements of an
  integer array are integers; where numpy adds them up in a 64-bit accumulator, the model
  gives the exact sum when it fits and an uninterpreted value when it does not.

  The intensity image is an array of float32 numbers. \<open>Float32 r\<close> is the float32 number
  that the conversion from a float of value \<open>r\<close> gives: zero when the magnitude of \<open>r\<close> is
  at most \<open>1 / 2 ^ 150\<close>, infinite when it is at least \<open>2 ^ 128 - 2 ^ 103\<close>, and the
  nearest float32 number in between. \<open>Approx r\<close> is the float64 number that the
  floating-point operations of the code give where exact arithmetic gives \<open>r\<close>. No
  statement below depends on how these numbers are rounded.
\<close>

datatype error = IndexError | StopIteration | TypeError | ValueError

record 'a ndarray =
  shape :: "nat list"
  data :: "'a list"

datatype float32 = Float32 real | NaN32

datatype npfloat = Approx real | PosInf | NegInf | NaN

type_synonym slice = "nat \<times> nat"

type_synonym object_slices = "slice list option"

definition ndim :: "'a ndarray \<Rightarrow> nat" where
  "ndim a = length (shape a)"

definition size_of :: "'a ndarray \<Rightarrow> nat" where
  "size_of a = prod_list (shape a)"

text \<open>All multi-indices of a shape, in row-major order (\<^verbatim>\<open>numpy.ndindex\<close>).\<close>

fun ndindex :: "nat list \<Rightarrow> nat list list" where
  "ndindex [] = [[]]"
| "ndindex (n # ns) = concat (map (\<lambda>i. map ((#) i) (ndindex ns)) [0..<n])"

text \<open>The flat position of a multi-index (\<^verbatim>\<open>numpy.ravel_multi_index\<close>).\<close>

fun ravel_multi_index :: "nat list \<Rightarrow> nat list \<Rightarrow> nat" where
  "ravel_multi_index (i # is) (n # ns) = i * prod_list ns + ravel_multi_index is ns"
| "ravel_multi_index _ _ = 0"

definition item :: "'a ndarray \<Rightarrow> nat list \<Rightarrow> 'a" where
  "item a idx = data a ! ravel_multi_index idx (shape a)"

text \<open>
  \<^verbatim>\<open>a[s0, s1, ...]\<close> with a tuple of slices \<^verbatim>\<open>slice(start, stop)\<close> of non-negative bounds:
  each slice is clipped to its axis, the axes without a slice are taken whole, and more
  slices than axes raise IndexError.
\<close>

fun slice_bounds :: "nat list \<Rightarrow> slice list \<Rightarrow> slice list" where
  "slice_bounds [] ss = []"
| "slice_bounds (n # ns) [] = (0, n) # slice_bounds ns []"
| "slice_bounds (n # ns) ((start, stop) # ss) =
     (min start n, max (min start n) (min stop n)) # slice_bounds ns ss"

definition getitem_slices :: "'a ndarray \<Rightarrow> slice list \<Rightarrow> error + 'a ndarray" where
  "getitem_slices a ss =
     (if length (shape a) < length ss then Inl IndexError
      else
        let bs = slice_bounds (shape a) ss;
            shp = map (\<lambda>(start, stop). stop - start) bs
        in Inr \<lparr>shape = shp,
                data = map (\<lambda>idx. item a (map2 (+) (map fst bs) idx)) (ndindex shp)\<rparr>)"

text \<open>\<^verbatim>\<open>a[None]\<close>: a new leading axis of length one.\<close>

definition getitem_None :: "'a ndarray \<Rightarrow> 'a ndarray" where
  "getitem_None a = \<lparr>shape = 1 # shape a, data = data a\<rparr>"

text \<open>\<^verbatim>\<open>a[obj]\<close> for an entry of \<^verbatim>\<open>find_objects\<close>: a tuple of slices, or None.\<close>

definition getitem :: "'a ndarray \<Rightarrow> object_slices \<Rightarrow> error + 'a ndarray" where
  "getitem a obj = (case obj of None \<Rightarrow> Inr (getitem_None a) | Some ss \<Rightarrow> getitem_slices a ss)"

definition squeeze :: "'a ndarray \<Rightarrow> 'a ndarray" where
  "squeeze a = \<lparr>shape = filter (\<lambda>n. n \<noteq> 1) (shape a), data = data a\<rparr>"

definition greater_zero :: "int ndarray \<Rightarrow> bool ndarray" where
  "greater_zero a = \<lparr>shape = shape a, data = map (\<lambda>x. 0 < x) (data a)\<rparr>"

text \<open>Broadcasting of two shapes, aligned at the last axis.\<close>

definition pad_shape :: "nat \<Rightarrow> nat list \<Rightarrow> nat list" where
  "pad_shape n s = replicate (n - length s) 1 @ s"

fun broadcast_dims :: "nat list \<Rightarrow> nat list \<Rightarrow> nat list option" where
  "broadcast_dims [] [] = Some []"
| "broadcast_dims (a # as) (b # bs) =
     (case broadcast_dims as bs of
        None \<Rightarrow> None
      | Some r \<Rightarrow>
          if a = b \<or> b = 1 then Some (a # r)
          else if a = 1 then Some (b # r)
          else None)"
| "broadcast_dims _ _ = None"

definition broadcast_shapes :: "nat list \<Rightarrow> nat list \<Rightarrow> nat list option" where
  "broadcast_shapes s t =
     (let n = max (length s) (length t) in broadcast_dims (pad_shape n s) (pad_shape n t))"

text \<open>The element of \<open>a\<close> that lands at index \<open>idx\<close> of the broadcast result.\<close>

definition broadcast_item :: "'a ndarray \<Rightarrow> nat list \<Rightarrow> 'a" where
  "broadcast_item a idx =
     item a (map2 (\<lambda>n i. if n = 1 then 0 else i) (shape a)
               (drop (length idx - length (shape a)) idx))"

text \<open>
  \<^verbatim>\<open>a * b\<close> of a float32 array and a boolean array. The boolean counts as 1.0 or 0.0: a
  number times 1.0 is the number, a finite number times 0.0 is zero, and infinity times
  0.0 is not a number.
\<close>

definition is_inf32 :: "real \<Rightarrow> bool" where
  "is_inf32 r \<longleftrightarrow> 2 ^ 128 - 2 ^ 103 \<le> \<bar>r\<bar>"

fun times_bool :: "float32 \<Rightarrow> bool \<Rightarrow> float32" where
  "times_bool NaN32 b = NaN32"
| "times_bool (Float32 r) b = (if b then Float32 r else if is_inf32 r then NaN32 else Float32 0)"

definition multiply :: "float32 ndarray \<Rightarrow> bool ndarray \<Rightarrow> error + float32 ndarray" where
  "multiply a b =
     (case broadcast_shapes (shape a) (shape b) of
        None \<Rightarrow> Inl ValueError
      | Some shp \<Rightarrow>
          Inr \<lparr>shape = shp,
               data = map (\<lambda>idx. times_bool (broadcast_item a idx) (broadcast_item b idx))
                        (ndindex shp)\<rparr>)"

text \<open>
  \<^verbatim>\<open>numpy.nonzero(a)\<close>: one index array per axis, over the nonzero elements in row-major
  order. Not-a-number is not zero.
\<close>

fun is_nonzero32 :: "float32 \<Rightarrow> bool" where
  "is_nonzero32 NaN32 = True"
| "is_nonzero32 (Float32 r) = (1 / 2 ^ 150 < \<bar>r\<bar>)"

definition nonzero :: "float32 ndarray \<Rightarrow> int list list" where
  "nonzero a =
     (let hits = filter (\<lambda>idx. is_nonzero32 (item a idx)) (ndindex (shape a))
      in map (\<lambda>k. map (\<lambda>idx. int (idx ! k)) hits) [0..<length (shape a)])"

text \<open>
  \<^verbatim>\<open>numpy.max(a)\<close>: an empty array has no maximum (ValueError), not-a-number wins over every
  number, and the conversion to float32 is monotone, so that the largest element comes
  from the largest value.
\<close>

fun value32 :: "float32 \<Rightarrow> real" where
  "value32 (Float32 r) = r"
| "value32 NaN32 = 0"

definition amax :: "float32 ndarray \<Rightarrow> error + float32" where
  "amax a =
     (case data a of
        [] \<Rightarrow> Inl ValueError
      | x # xs \<Rightarrow>
          if list_ex (\<lambda>y. y = NaN32) (x # xs) then Inr NaN32
          else Inr (Float32 (fold max (map value32 xs) (value32 x))))"

text \<open>\<^verbatim>\<open>numpy.vstack(stack).T\<close> of equally long one-dimensional arrays.\<close>

definition vstack_T :: "int list list \<Rightarrow> error + int ndarray" where
  "vstack_T stack =
     (case stack of
        [] \<Rightarrow> Inl ValueError
      | first # _ \<Rightarrow>
          Inr \<lparr>shape = [length first, length stack],
               data = concat (map (\<lambda>r. map (\<lambda>column. column ! r) stack) [0..<length first])\<rparr>)"

text \<open>\<^verbatim>\<open>x / y\<close> of two floats: numpy divides by zero without raising.\<close>

definition true_divide :: "real \<Rightarrow> real \<Rightarrow> npfloat" where
  "true_divide x y =
     (if y \<noteq> 0 then Approx (x / y)
      else if x = 0 then NaN
      else if 0 < x then PosInf
      else NegInf)"

text \<open>\<^verbatim>\<open>a.mean(axis=0)\<close>: the sum along the first axis over its length.\<close>

definition mean_axis0 :: "int ndarray \<Rightarrow> error + npfloat ndarray" where
  "mean_axis0 a =
     (case shape a of
        [] \<Rightarrow> Inl ValueError
      | n # rest \<Rightarrow>
          Inr \<lparr>shape = rest,
               data = map (\<lambda>idx. true_divide (real_of_int (\<Sum>r\<leftarrow>[0..<n]. item a (r # idx))) (real n))
                        (ndindex rest)\<rparr>)"

text \<open>\<^verbatim>\<open>a.astype(numpy.uint8)\<close> of an integer array keeps the low eight bits.\<close>

definition astype_uint8 :: "int ndarray \<Rightarrow> nat ndarray" where
  "astype_uint8 a = \<lparr>shape = shape a, data = map (\<lambda>x. nat (x mod 256)) (data a)\<rparr>"

subsection \<open>The external routines\<close>

text \<open>
  \<^verbatim>\<open>scipy.ndimage.find_objects(label)\<close>, from its documentation: the list has one entry per
  label value from 1 to the largest value of the array; the entry of a value that occurs is
  the tuple of slices of its bounding box, the entry of a value that does not occur is
  None. The largest value of an empty array does not exist (ValueError).
\<close>

definition bounding_box :: "int ndarray \<Rightarrow> int \<Rightarrow> object_slices" where
  "bounding_box input l =
     (case filter (\<lambda>idx. item input idx = l) (ndindex (shape input)) of
        [] \<Rightarrow> None
      | p # ps \<Rightarrow>
          Some (map (\<lambda>k. (fold min (map (\<lambda>idx. idx ! k) ps) (p ! k),
                          Suc (fold max (map (\<lambda>idx. idx ! k) ps) (p ! k))))
                  [0..<length (shape input)]))"

definition find_objects :: "int ndarray \<Rightarrow> error + object_slices list" where
  "find_objects input =
     (case data input of
        [] \<Rightarrow> Inl ValueError
      | x # xs \<Rightarrow> Inr (map (bounding_box input) [1..fold max xs x]))"

text \<open>
  \<^verbatim>\<open>skimage.img_as_float32(image)\<close> of a floating-point image: every element is converted
  to float32 and the shape is kept. The argument holds the values of the elements before
  the conversion.
\<close>

definition img_as_float32 :: "real ndarray \<Rightarrow> float32 ndarray" where
  "img_as_float32 img = \<lparr>shape = shape img, data = map Float32 (data img)\<rparr>"

text \<open>
  The routines of skimage that compute on the pixels are parameters of the quantities
  that call them. In the order of the fields: \<^verbatim>\<open>skimage.img_as_ubyte(a)\<close>,
  \<^verbatim>\<open>skimage.measure.moments(a, order)\<close>, \<^verbatim>\<open>skimage.measure.moments_central(a, center, order)\<close>,
  \<^verbatim>\<open>skimage.morphology.convex_hull_image(a)\<close>,
  \<^verbatim>\<open>skimage.segmentation.find_boundaries(a, mode="outer")\<close>,
  \<^verbatim>\<open>skimage.measure.inertia_tensor(a, mu)\<close> and
  \<^verbatim>\<open>skimage.measure.inertia_tensor_eigvals(a, T=t)\<close>.
\<close>

record skimage =
  skimage_img_as_ubyte :: "float32 ndarray \<Rightarrow> error + nat ndarray"
  skimage_moments :: "nat ndarray \<Rightarrow> nat \<Rightarrow> error + real ndarray"
  skimage_moments_central :: "nat ndarray \<Rightarrow> npfloat ndarray list \<Rightarrow> nat \<Rightarrow> error + real ndarray"
  skimage_convex_hull_image :: "bool ndarray \<Rightarrow> error + bool ndarray"
  skimage_find_boundaries :: "bool ndarray \<Rightarrow> error + bool ndarray"
  skimage_inertia_tensor :: "float32 ndarray \<Rightarrow> real ndarray \<Rightarrow> error + real ndarray"
  skimage_inertia_tensor_eigvals :: "int ndarray \<Rightarrow> real ndarray \<Rightarrow> error + real list"

subsection \<open>The generator\<close>

text \<open>
  The values that properties return. \<open>Wrapped s\<close> is the 64-bit integer that numpy gives
  for a sum whose exact value \<open>s\<close> does not fit.
\<close>

datatype val =
    IntV int
  | Wrapped int
  | Float32V float32
  | FloatV npfloat
  | IntArr "int ndarray"
  | Float32Arr "float32 ndarray"
  | FloatArr "real ndarray"
  | FloatList "real list"
  | BoolArr "bool ndarray"
  | QuotArr "npfloat ndarray"
  | TupleV "npfloat ndarray list"

record Generator =
  self_cache :: "string \<rightharpoonup> val"
  self_image :: "float32 ndarray"
  self_label :: "int ndarray"
  self_multichannel :: bool
  self_objects :: "object_slices list"
  self_object_index :: int
  self_object :: object_slices
  self_volumetric :: bool
  self_cropped :: "unit option"
  self_spatial_axes :: "nat list"

type_synonym ('s, 'a) py_method = "'s Generator_scheme \<Rightarrow> (error + 'a) \<times> 's Generator_scheme"

definition return :: "'a \<Rightarrow> ('s, 'a) py_method" where
  "return x g = (Inr x, g)"

definition raise :: "error \<Rightarrow> ('s, 'a) py_method" where
  "raise e g = (Inl e, g)"

definition bind :: "('s, 'a) py_method \<Rightarrow> ('a \<Rightarrow> ('s, 'b) py_method) \<Rightarrow> ('s, 'b) py_method" where
  "bind m f g = (case m g of (Inl e, g') \<Rightarrow> (Inl e, g') | (Inr x, g') \<Rightarrow> f x g')"

definition lift :: "error + 'a \<Rightarrow> ('s, 'a) py_method" where
  "lift r g = (r, g)"

text \<open>
  Subscription \<^verbatim>\<open>xs[i]\<close> of a list or a tuple by an integer: the positions are
  \<open>0\<close> to \<open>len(xs) - 1\<close>, the integers \<open>-len(xs)\<close> to \<open>-1\<close> name the same positions
  from the back, and every other integer is an IndexError.
\<close>

definition list_getitem :: "'a list \<Rightarrow> int \<Rightarrow> error + 'a" where
  "list_getitem xs i =
     (if 0 \<le> i \<and> i < int (length xs) then Inr (xs ! nat i)
      else if i < 0 \<and> - int (length xs) \<le> i then Inr (xs ! nat (int (length xs) + i))
      else Inl IndexError)"

text \<open>The comparison \<^verbatim>\<open>s < t\<close> of two tuples of integers is lexicographic.\<close>

fun tuple_less :: "nat list \<Rightarrow> nat list \<Rightarrow> bool" where
  "tuple_less [] [] = False"
| "tuple_less [] (b # bs) = True"
| "tuple_less (a # as) [] = False"
| "tuple_less (a # as) (b # bs) = (a < b \<or> (a = b \<and> tuple_less as bs))"

text \<open>
  The decorator \<^verbatim>\<open>cache\<close>. The key is the name of the wrapped function; the wrapped
  function runs only when the key is absent, and its result is stored under the key in the
  generator it leaves behind.
\<close>

definition cache :: "string \<Rightarrow> ('s, val) py_method \<Rightarrow> ('s, val) py_method" where
  "cache name wrapped generator =
     (case self_cache generator name of
        Some v \<Rightarrow> (Inr v, generator)
      | None \<Rightarrow>
          (case wrapped generator of
             (Inl e, g') \<Rightarrow> (Inl e, g')
           | (Inr v, g') \<Rightarrow> (Inr v, g'\<lparr>self_cache := (self_cache g')(name \<mapsto> v)\<rparr>)))"

text \<open>\<^verbatim>\<open>Generator.__init__(self, label, image)\<close>.\<close>

definition Generator_init :: "int ndarray \<Rightarrow> real ndarray \<Rightarrow> error + Generator" where
  "Generator_init label img =
     (case find_objects label of
        Inl e \<Rightarrow> Inl e
      | Inr objects \<Rightarrow>
          (case list_getitem objects (1 - 1) of
             Inl e \<Rightarrow> Inl e
           | Inr object \<Rightarrow>
               Inr \<lparr>self_cache = Map.empty,
                    self_image = img_as_float32 img,
                    self_label = label,
                    self_multichannel = tuple_less (shape label) (shape img),
                    self_objects = objects,
                    self_object_index = 1,
                    self_object = object,
                    self_volumetric = False,
                    self_cropped = None,
                    self_spatial_axes = [0..<ndim label]\<rparr>))"

text \<open>
  \<^verbatim>\<open>Generator.__next__(self)\<close>. The body of the property \<^verbatim>\<open>_members\<close> is cut off in the
  source after its call of \<^verbatim>\<open>inspect.getmembers\<close>, which lists the properties of the class
  as pairs of a name and the property; the list of the members is therefore a parameter,
  and \<^verbatim>\<open>getattr(self, member)\<close> runs the property paired with the name.
\<close>

type_synonym 's members = "(string \<times> ('s, val) py_method) list"

fun getattr_all :: "'s members \<Rightarrow> ('s, val list) py_method" where
  "getattr_all [] = return []"
| "getattr_all ((name, property) # members) =
     bind property (\<lambda>v. bind (getattr_all members) (\<lambda>vs. return (v # vs)))"

definition Generator_next :: "'s members \<Rightarrow> ('s, val list) py_method" where
  "Generator_next members self =
     (case list_getitem (self_objects self) (self_object_index self - 1) of
        Inl e \<Rightarrow> (Inl StopIteration, self)
      | Inr object \<Rightarrow>
          getattr_all members
            (self\<lparr>self_object := object, self_object_index := self_object_index self + 1\<rparr>))"

text \<open>The results of \<open>n\<close> successive calls of \<^verbatim>\<open>__next__\<close>, and the generator after them.\<close>

fun next_n :: "'s members \<Rightarrow> nat \<Rightarrow> 's Generator_scheme \<Rightarrow> (error + val list) list \<times> 's Generator_scheme" where
  "next_n members 0 g = ([], g)"
| "next_n members (Suc n) g =
     (case Generator_next members g of
        (r, g') \<Rightarrow> (case next_n members n g' of (rs, g'') \<Rightarrow> (r # rs, g'')))"

subsection \<open>Derived quantities\<close>

text \<open>
  \<^verbatim>\<open>numpy.sum(a)\<close> of an integer array adds the elements in a 64-bit integer. A sum from
  \<open>-2 ^ 63\<close> up to but not including \<open>2 ^ 63\<close> fits whether the integer is signed or not (the
  elements of an unsigned array are not negative); any other sum wraps around.
\<close>

definition np_sum :: "int ndarray \<Rightarrow> val" where
  "np_sum a =
     (let s = sum_list (data a)
      in if - (2 ^ 63) \<le> s \<and> s < 2 ^ 63 then IntV s else Wrapped s)"

definition area_wrapped :: "('s, val) py_method" where
  "area_wrapped self = return (np_sum (self_label self)) self"

definition area :: "('s, val) py_method" where
  "area = cache ''area'' area_wrapped"

definition crop_wrapped :: "('s, val) py_method" where
  "crop_wrapped self =
     bind (lift (getitem (self_image self) (self_object self))) (\<lambda>a. return (Float32Arr a)) self"

definition crop :: "('s, val) py_method" where
  "crop = cache ''crop'' crop_wrapped"

definition mask_wrapped :: "('s, val) py_method" where
  "mask_wrapped self =
     bind (lift (getitem (self_label self) (self_object self)))
       (\<lambda>a. return (BoolArr (greater_zero (squeeze a)))) self"

definition mask :: "('s, val) py_method" where
  "mask = cache ''mask'' mask_wrapped"

definition masked_wrapped :: "('s, val) py_method" where
  "masked_wrapped self =
     bind (lift (getitem (self_image self) (self_object self)))
       (\<lambda>a. bind mask
          (\<lambda>m. case m of
                  BoolArr b \<Rightarrow> bind (lift (multiply a b)) (\<lambda>product. return (Float32Arr product))
                | _ \<Rightarrow> raise TypeError)) self"

definition masked :: "('s, val) py_method" where
  "masked = cache ''masked'' masked_wrapped"

text \<open>
  The loop of \<^verbatim>\<open>coordinates\<close>: \<^verbatim>\<open>stack += [indices[index] + self.object[index].start]\<close> for
  every axis of the label image. An object that is None has no item (TypeError).
\<close>

fun coordinates_loop :: "int list list \<Rightarrow> object_slices \<Rightarrow> nat list \<Rightarrow> int list list \<Rightarrow> error + int list list" where
  "coordinates_loop indices object [] stack = Inr stack"
| "coordinates_loop indices object (index # rest) stack =
     (case list_getitem indices (int index) of
        Inl e \<Rightarrow> Inl e
      | Inr column \<Rightarrow>
          (case object of
             None \<Rightarrow> Inl TypeError
           | Some slices \<Rightarrow>
               (case list_getitem slices (int index) of
                  Inl e \<Rightarrow> Inl e
                | Inr (start, stop) \<Rightarrow>
                    coordinates_loop indices object rest
                      (stack @ [map (\<lambda>i. i + int start) column]))))"

definition coordinates_wrapped :: "('s, val) py_method" where
  "coordinates_wrapped self =
     (let indices = nonzero (self_image self)
      in bind (lift (coordinates_loop indices (self_object self) [0..<ndim (self_label self)] []))
           (\<lambda>stack. bind (lift (vstack_T stack)) (\<lambda>a. return (IntArr a)))) self"

definition coordinates :: "('s, val) py_method" where
  "coordinates = cache ''coordinates'' coordinates_wrapped"

definition centroid_wrapped :: "('s, val) py_method" where
  "centroid_wrapped =
     bind coordinates
       (\<lambda>c. case c of
               IntArr a \<Rightarrow> bind (lift (mean_axis0 a)) (\<lambda>m. return (QuotArr m))
             | _ \<Rightarrow> raise TypeError)"

definition centroid :: "('s, val) py_method" where
  "centroid = cache ''centroid'' centroid_wrapped"

definition zeros :: "nat list \<Rightarrow> real ndarray" where
  "zeros shp = \<lparr>shape = shp, data = replicate (prod_list shp) 0\<rparr>"

text \<open>
  \<^verbatim>\<open>v[0] = m\<close>: the value is broadcast to the shape of \<^verbatim>\<open>v[0]\<close>, after numpy has dropped
  leading axes of length one that the value has beyond those of \<^verbatim>\<open>v[0]\<close>; a value that
  does not broadcast raises ValueError.
\<close>

fun strip_ones :: "nat \<Rightarrow> nat list \<Rightarrow> nat list" where
  "strip_ones n [] = []"
| "strip_ones n (d # ds) = (if n < length (d # ds) \<and> d = 1 then strip_ones n ds else d # ds)"

definition setitem_0 :: "real ndarray \<Rightarrow> real ndarray \<Rightarrow> error + real ndarray" where
  "setitem_0 v m =
     (case shape v of
        [] \<Rightarrow> Inl IndexError
      | n # target \<Rightarrow>
          if n = 0 then Inl IndexError
          else
            let s = strip_ones (length target) (shape m) in
            if length s \<le> length target \<and> broadcast_shapes s target = Some target
            then Inr \<lparr>shape = shape v,
                      data = map (broadcast_item \<lparr>shape = s, data = data m\<rparr>) (ndindex target)
                             @ drop (prod_list target) (data v)\<rparr>
            else Inl ValueError)"

definition spatial_moments_wrapped :: "skimage \<Rightarrow> ('s, val) py_method" where
  "spatial_moments_wrapped ext =
     bind masked
       (\<lambda>a. case a of
               Float32Arr a \<Rightarrow>
                 bind (lift (skimage_img_as_ubyte ext a))
                   (\<lambda>u. bind (lift (skimage_moments ext u 3))
                      (\<lambda>m self.
                         if \<not> self_volumetric self
                         then bind (lift (setitem_0 (zeros [4, 4, 4]) m))
                                (\<lambda>v. return (FloatArr v)) self
                         else return (FloatArr m) self))
             | _ \<Rightarrow> raise TypeError)"

definition spatial_moments :: "skimage \<Rightarrow> ('s, val) py_method" where
  "spatial_moments ext = cache ''spatial_moments'' (spatial_moments_wrapped ext)"

text \<open>
  The indexing of \<^verbatim>\<open>local_centroid\<close>. \<^verbatim>\<open>a[i0, i1, ...]\<close> with integers selects along the
  leading axes; \<^verbatim>\<open>a[tuple(numpy.eye(d, dtype=int))]\<close> indexes the \<open>d\<close> leading axes with the
  rows of the identity matrix, so that entry \<open>k\<close> of the result is \<^verbatim>\<open>a[eye[0][k], ..., eye[d-1][k]]\<close>;
  \<^verbatim>\<open>tuple(a)\<close> splits an array along its first axis.
\<close>

definition getitem_ints :: "'a ndarray \<Rightarrow> nat list \<Rightarrow> error + 'a ndarray" where
  "getitem_ints a is =
     (if length (shape a) < length is \<or> list_ex (\<lambda>(i, n). n \<le> i) (zip is (shape a))
      then Inl IndexError
      else
        let rest = drop (length is) (shape a)
        in Inr \<lparr>shape = rest, data = map (\<lambda>t. item a (is @ t)) (ndindex rest)\<rparr>)"

definition eye :: "nat \<Rightarrow> nat list list" where
  "eye d = map (\<lambda>i. map (\<lambda>j. if i = j then 1 else 0) [0..<d]) [0..<d]"

definition getitem_index_arrays :: "'a ndarray \<Rightarrow> nat list list \<Rightarrow> error + 'a ndarray" where
  "getitem_index_arrays a arrays =
     (case arrays of
        [] \<Rightarrow> Inr a
      | first # _ \<Rightarrow>
          if length (shape a) < length arrays
             \<or> list_ex (\<lambda>(array, n). list_ex (\<lambda>i. n \<le> i) array) (zip arrays (shape a))
          then Inl IndexError
          else
            let rest = drop (length arrays) (shape a)
            in Inr \<lparr>shape = length first # rest,
                    data = concat (map (\<lambda>k. map (\<lambda>t. item a (map (\<lambda>array. array ! k) arrays @ t))
                                               (ndindex rest))
                                     [0..<length first])\<rparr>)"

definition divide :: "real ndarray \<Rightarrow> real ndarray \<Rightarrow> error + npfloat ndarray" where
  "divide a b =
     (case broadcast_shapes (shape a) (shape b) of
        None \<Rightarrow> Inl ValueError
      | Some shp \<Rightarrow>
          Inr \<lparr>shape = shp,
               data = map (\<lambda>idx. true_divide (broadcast_item a idx) (broadcast_item b idx))
                        (ndindex shp)\<rparr>)"

definition tuple_of :: "'a ndarray \<Rightarrow> error + 'a ndarray list" where
  "tuple_of a =
     (case shape a of
        [] \<Rightarrow> Inl TypeError
      | n # rest \<Rightarrow>
          Inr (map (\<lambda>k. \<lparr>shape = rest,
                         data = take (prod_list rest) (drop (k * prod_list rest) (data a))\<rparr>)
                 [0..<n]))"

definition local_centroid_wrapped :: "skimage \<Rightarrow> ('s, val) py_method" where
  "local_centroid_wrapped ext =
     bind (spatial_moments ext)
       (\<lambda>spatial_moments self.
          (case spatial_moments of
             FloatArr sm \<Rightarrow>
               bind (lift (getitem_index_arrays sm (eye (ndim (self_label self)))))
                 (\<lambda>numerator. bind (lift (getitem_ints sm (replicate (ndim (self_label self)) 0)))
                    (\<lambda>denominator. bind (lift (divide numerator denominator))
                       (\<lambda>quotient. bind (lift (tuple_of quotient))
                          (\<lambda>t. return (TupleV t)))))
           | _ \<Rightarrow> raise TypeError) self)"

definition local_centroid :: "skimage \<Rightarrow> ('s, val) py_method" where
  "local_centroid ext = cache ''local_centroid'' (local_centroid_wrapped ext)"

text \<open>The other functions under the decorator.\<close>

definition central_moments_wrapped :: "skimage \<Rightarrow> ('s, val) py_method" where
  "central_moments_wrapped ext =
     bind (local_centroid ext)
       (\<lambda>c self.
          (case c of
             TupleV center \<Rightarrow>
               bind (lift (skimage_moments_central ext (astype_uint8 (self_label self)) center 3))
                 (\<lambda>mu. return (FloatArr mu))
           | _ \<Rightarrow> raise TypeError) self)"

definition central_moments :: "skimage \<Rightarrow> ('s, val) py_method" where
  "central_moments ext = cache ''central_moments'' (central_moments_wrapped ext)"

definition convex_hull_wrapped :: "skimage \<Rightarrow> ('s, val) py_method" where
  "convex_hull_wrapped ext =
     bind mask
       (\<lambda>m. case m of
               BoolArr b \<Rightarrow> bind (lift (skimage_convex_hull_image ext b)) (\<lambda>image_hull. return (BoolArr image_hull))
             | _ \<Rightarrow> raise TypeError)"

definition convex_hull :: "skimage \<Rightarrow> ('s, val) py_method" where
  "convex_hull ext = cache ''convex_hull'' (convex_hull_wrapped ext)"

definition edge_wrapped :: "skimage \<Rightarrow> ('s, val) py_method" where
  "edge_wrapped ext =
     bind mask
       (\<lambda>m. case m of
               BoolArr b \<Rightarrow>
                 bind (lift (skimage_find_boundaries ext b))
                   (\<lambda>boundary. bind crop
                      (\<lambda>c. case c of
                              Float32Arr a \<Rightarrow>
                                bind (lift (multiply a boundary)) (\<lambda>product. return (Float32Arr product))
                            | _ \<Rightarrow> raise TypeError))
             | _ \<Rightarrow> raise TypeError)"

definition edge :: "skimage \<Rightarrow> ('s, val) py_method" where
  "edge ext = cache ''edge'' (edge_wrapped ext)"

definition inertia_tensor_wrapped :: "skimage \<Rightarrow> ('s, val) py_method" where
  "inertia_tensor_wrapped ext =
     bind (central_moments ext)
       (\<lambda>mu self.
          (case mu of
             FloatArr mu \<Rightarrow>
               bind (lift (skimage_inertia_tensor ext (self_image self) mu))
                 (\<lambda>t. return (FloatArr t))
           | _ \<Rightarrow> raise TypeError) self)"

definition inertia_tensor :: "skimage \<Rightarrow> ('s, val) py_method" where
  "inertia_tensor ext = cache ''inertia_tensor'' (inertia_tensor_wrapped ext)"

definition inertia_tensor_eigenvalues_wrapped :: "skimage \<Rightarrow> ('s, val) py_method" where
  "inertia_tensor_eigenvalues_wrapped ext =
     bind (inertia_tensor ext)
       (\<lambda>t self.
          (case t of
             FloatArr t \<Rightarrow>
               bind (lift (skimage_inertia_tensor_eigvals ext (self_label self) t))
                 (\<lambda>eigenvalues. return (FloatList eigenvalues))
           | _ \<Rightarrow> raise TypeError) self)"

definition inertia_tensor_eigenvalues :: "skimage \<Rightarrow> ('s, val) py_method" where
  "inertia_tensor_eigenvalues ext =
     cache ''inertia_tensor_eigenvalues'' (inertia_tensor_eigenvalues_wrapped ext)"

subsection \<open>Features\<close>

text \<open>
  \<^verbatim>\<open>_feature_color_object_maximum_intensity\<close>, which is under the decorator as well,
  \<^verbatim>\<open>_feature_metadata_object_index\<close>, and \<open>feature_placeholder\<close>, the body \<^verbatim>\<open>return 0.0\<close>
  shared by the features that are not implemented.
\<close>

definition feature_color_object_maximum_intensity_wrapped :: "('s, val) py_method" where
  "feature_color_object_maximum_intensity_wrapped =
     bind masked
       (\<lambda>m. case m of
               Float32Arr a \<Rightarrow> bind (lift (amax a)) (\<lambda>x. return (Float32V x))
             | _ \<Rightarrow> raise TypeError)"


definition feature_metadata_object_index :: "('s, val) py_method" where
  "feature_metadata_object_index self = return (IntV (self_object_index self)) self"

definition feature_placeholder :: "('s, val) py_method" where
  "feature_placeholder = return (FloatV (Approx 0))"

subsection \<open>Notions used in the statements\<close>

text \<open>
  A method writes only the cache when the generator it leaves behind differs from the one
  it was given in the field \<^verbatim>\<open>cache\<close> at most; it never raises when it returns a value from
  every generator.
\<close>

definition cache_only :: "('s, 'a) py_method \<Rightarrow> bool" where
  "cache_only m \<longleftrightarrow> (\<forall>g. \<exists>c. snd (m g) = g\<lparr>self_cache := c\<rparr>)"


text \<open>
  Instrumentation: a generator extended by a counter, and a wrapped function that adds one
  to the counter each time it runs.
\<close>

definition counted :: "(nat, 'a) py_method \<Rightarrow> (nat, 'a) py_method" where
  "counted wrapped g =
     (case wrapped g of (r, g') \<Rightarrow> (r, g'\<lparr>more := Suc (Generator.more g')\<rparr>))"

text \<open>The fourteen functions under the decorator \<^verbatim>\<open>cache\<close>, with their keys.\<close>

definition derived_quantities :: "skimage \<Rightarrow> 's members" where
  "derived_quantities ext =
     [(''area'', area_wrapped),
      (''central_moments'', central_moments_wrapped ext),
      (''centroid'', centroid_wrapped),
      (''convex_hull'', convex_hull_wrapped ext),
      (''coordinates'', coordinates_wrapped),
      (''crop'', crop_wrapped),
      (''edge'', edge_wrapped ext),
      (''inertia_tensor'', inertia_tensor_wrapped ext),
      (''inertia_tensor_eigenvalues'', inertia_tensor_eigenvalues_wrapped ext),
      (''local_centroid'', local_centroid_wrapped ext),
      (''mask'', mask_wrapped),
      (''masked'', masked_wrapped),
      (''spatial_moments'', spatial_moments_wrapped ext),
      (''_feature_color_object_maximum_intensity'', feature_color_object_maximum_intensity_wrapped)]"

subsection \<open>Example inputs\<close>

text \<open>
  A label image of one row with the objects 1 and 2 side by side, an intensity image with
  the values 1/2 and 1/4 under them, and the generator that the constructor returns for
  them (once without and once with the counter of the instrumentation).
\<close>

definition two_label :: "int ndarray" where
  "two_label = \<lparr>shape = [1, 2], data = [1, 2]\<rparr>"

definition two_image :: "real ndarray" where
  "two_image = \<lparr>shape = [1, 2], data = [1 / 2, 1 / 4]\<rparr>"

definition two_generator :: Generator where
  "two_generator =
     \<lparr>self_cache = Map.empty,
      self_image = \<lparr>shape = [1, 2], data = [Float32 (1 / 2), Float32 (1 / 4)]\<rparr>,
      self_label = two_label,
      self_multichannel = False,
      self_objects = [Some [(0, 1), (0, 1)], Some [(0, 1), (1, 2)]],
      self_object_index = 1,
      self_object = Some [(0, 1), (0, 1)],
      self_volumetric = False,
      self_cropped = None,
      self_spatial_axes = [0, 1]\<rparr>"

definition two_generator_counting :: "nat Generator_scheme" where
  "two_generator_counting =
     \<lparr>self_cache = Map.empty,
      self_image = \<lparr>shape = [1, 2], data = [Float32 (1 / 2), Float32 (1 / 4)]\<rparr>,
      self_label = two_label,
      self_multichannel = False,
      self_objects = [Some [(0, 1), (0, 1)], Some [(0, 1), (1, 2)]],
      self_object_index = 1,
      self_object = Some [(0, 1), (0, 1)],
      self_volumetric = False,
      self_cropped = None,
      self_spatial_axes = [0, 1],
      \<dots> = 0\<rparr>"

text \<open>
  A label image of two rows and two columns whose only object is the pixel in the last row
  and column, with an intensity image that is nonzero on the diagonal.
\<close>

definition diag_label :: "int ndarray" where
  "diag_label = \<lparr>shape = [2, 2], data = [0, 0, 0, 1]\<rparr>"

definition diag_image :: "real ndarray" where
  "diag_image = \<lparr>shape = [2, 2], data = [1 / 2, 0, 0, 1 / 2]\<rparr>"

definition diag_generator :: Generator where
  "diag_generator =
     \<lparr>self_cache = Map.empty,
      self_image = \<lparr>shape = [2, 2], data = [Float32 (1 / 2), Float32 0, Float32 0, Float32 (1 / 2)]\<rparr>,
      self_label = diag_label,
      self_multichannel = False,
      self_objects = [Some [(1, 2), (1, 2)]],
      self_object_index = 1,
      self_object = Some [(1, 2), (1, 2)],
      self_volumetric = False,
      self_cropped = None,
      self_spatial_axes = [0, 1]\<rparr>"

text \<open>
  A label image of one pixel with an intensity image of two pixels, a label image without
  an object, and a label image of one row with a three-channel intensity image.
\<close>

definition one_label :: "int ndarray" where
  "one_label = \<lparr>shape = [1, 1], data = [1]\<rparr>"

definition wide_image :: "real ndarray" where
  "wide_image = \<lparr>shape = [1, 2], data = [0, 0]\<rparr>"

definition wide_generator :: Generator where
  "wide_generator =
     \<lparr>self_cache = Map.empty,
      self_image = \<lparr>shape = [1, 2], data = [Float32 0, Float32 0]\<rparr>,
      self_label = one_label,
      self_multichannel = True,
      self_objects = [Some [(0, 1), (0, 1)]],
      self_object_index = 1,
      self_object = Some [(0, 1), (0, 1)],
      self_volumetric = False,
      self_cropped = None,
      self_spatial_axes = [0, 1]\<rparr>"

definition background_label :: "int ndarray" where
  "background_label = \<lparr>shape = [1, 1], data = [0]\<rparr>"

definition row_label :: "int ndarray" where
  "row_label = \<lparr>shape = [1, 2], data = [1, 1]\<rparr>"






text \<open>
  The routines of skimage at the arrays of the examples: a pixel of intensity 1/2 becomes
  the byte 128 (127.5 is rounded to the even neighbour) and a pixel of intensity 0 the byte
  0; the raw moments of a single pixel of value 128 at the origin are 128 for the exponents
  zero and 0 for all others, and those of a single pixel of value 0 are all 0. Nothing is
  said about the routines at other arrays.
\<close>

definition example_img_as_ubyte :: "float32 ndarray \<Rightarrow> error + nat ndarray" where
  "example_img_as_ubyte a =
     (if data a = [Float32 (1 / 2)] then Inr \<lparr>shape = shape a, data = [128]\<rparr>
      else if data a = [Float32 0] then Inr \<lparr>shape = shape a, data = [0]\<rparr>
      else undefined)"

definition example_moments :: "nat ndarray \<Rightarrow> nat \<Rightarrow> error + real ndarray" where
  "example_moments a order =
     (if data a = [128] \<and> prod_list (shape a) = 1 \<and> order = 3
      then Inr \<lparr>shape = replicate (length (shape a)) 4,
                data = 128 # replicate (4 ^ length (shape a) - 1) 0\<rparr>
      else if data a = [0] \<and> prod_list (shape a) = 1 \<and> order = 3
      then Inr \<lparr>shape = replicate (length (shape a)) 4,
                data = replicate (4 ^ length (shape a)) 0\<rparr>
      else undefined)"

definition example_routines :: skimage where
  "example_routines =
     \<lparr>skimage_img_as_ubyte = example_img_as_ubyte,
      skimage_moments = example_moments,
      skimage_moments_central = undefined,
      skimage_convex_hull_image = undefined,
      skimage_find_boundaries = undefined,
      skimage_inertia_tensor = undefined,
      skimage_inertia_tensor_eigvals = undefined\<rparr>"

definition index_members :: "unit members" where
  "index_members =
     [(''_feature_metadata_object_index'', feature_metadata_object_index),
      (''_feature_shape_object_area'', feature_placeholder)]"


text \<open>
  The generator constructed for \<open>row_label\<close> and \<open>channel_image\<close>, with the counter; the
  property \<^verbatim>\<open>masked\<close> with a counting function under the decorator; and the generator
  \<open>two_generator_counting\<close> after two calls of \<^verbatim>\<open>__next__\<close> with this property as the only
  member, when the second object is the current one.
\<close>

definition channel_generator_counting :: "nat Generator_scheme" where
  "channel_generator_counting =
     \<lparr>self_cache = Map.empty,
      self_image = \<lparr>shape = [1, 2, 3],
                     data = [Float32 1, Float32 1, Float32 1, Float32 1, Float32 1, Float32 1]\<rparr>,
      self_label = row_label,
      self_multichannel = True,
      self_objects = [Some [(0, 1), (0, 2)]],
      self_object_index = 1,
      self_object = Some [(0, 1), (0, 2)],
      self_volumetric = False,
      self_cropped = None,
      self_spatial_axes = [0, 1],
      \<dots> = 0\<rparr>"

definition counted_masked :: "(nat, val) py_method" where
  "counted_masked = cache ''masked'' (counted masked_wrapped)"

definition masked_members :: "nat members" where
  "masked_members = [(''masked'', counted_masked)]"

definition second_object_generator :: "nat Generator_scheme" where
  "second_object_generator = snd (next_n masked_members 2 two_generator_counting)"


section \<open>Properties\<close>

subsection \<open>Auxiliary facts\<close>

lemma bind_return [simp]: "bind (return x) f g = f x g"
  by (simp add: bind_def return_def)

lemma bind_raise [simp]: "bind (raise e) f g = (Inl e, g)"
  by (simp add: bind_def raise_def)

lemma bind_lift_Inr [simp]: "bind (lift (Inr x)) f g = f x g"
  by (simp add: bind_def lift_def)

lemma bind_lift_Inl [simp]: "bind (lift (Inl e)) f g = (Inl e, g)"
  by (simp add: bind_def lift_def)

lemma cache_onlyI: "(\<And>g. \<exists>c. snd (m g) = g\<lparr>self_cache := c\<rparr>) \<Longrightarrow> cache_only m"
  by (simp add: cache_only_def)

lemma cache_onlyD: "cache_only m \<Longrightarrow> \<exists>c. snd (m g) = g\<lparr>self_cache := c\<rparr>"
  by (simp add: cache_only_def)

lemma ex_cache_self: "\<exists>c. g = g\<lparr>self_cache := c\<rparr>"
  by (rule exI [of _ "self_cache g"]) simp

lemma cache_only_return [simp]: "cache_only (return x)"
  by (simp add: cache_only_def return_def ex_cache_self)

lemma cache_only_raise [simp]: "cache_only (raise e)"
  by (simp add: cache_only_def raise_def ex_cache_self)

lemma cache_only_lift [simp]: "cache_only (lift r)"
  by (simp add: cache_only_def lift_def ex_cache_self)

lemma cache_only_bind:
  assumes "cache_only m" and "\<And>x. cache_only (f x)"
  shows "cache_only (bind m f)"
proof (rule cache_onlyI)
  fix g
  obtain r g' where mg: "m g = (r, g')" by (cases "m g")
  from cache_onlyD [OF assms(1), of g] obtain c where "snd (m g) = g\<lparr>self_cache := c\<rparr>" ..
  with mg have g': "g' = g\<lparr>self_cache := c\<rparr>" by simp
  show "\<exists>c. snd (bind m f g) = g\<lparr>self_cache := c\<rparr>"
  proof (cases r)
    case (Inl e)
    with mg have "snd (bind m f g) = g'" by (simp add: bind_def)
    with g' show ?thesis by blast
  next
    case (Inr x)
    from cache_onlyD [OF assms(2), of x g'] obtain c' where c': "snd (f x g') = g'\<lparr>self_cache := c'\<rparr>" ..
    from mg Inr have "snd (bind m f g) = snd (f x g')" by (simp add: bind_def)
    also have "\<dots> = g'\<lparr>self_cache := c'\<rparr>" by (rule c')
    also have "\<dots> = g\<lparr>self_cache := c'\<rparr>" by (simp add: g')
    finally show ?thesis by blast
  qed
qed

lemma cache_only_cache:
  assumes "cache_only wrapped"
  shows "cache_only (cache name wrapped)"
proof (rule cache_onlyI)
  fix g
  obtain r g' where w: "wrapped g = (r, g')" by (cases "wrapped g")
  from cache_onlyD [OF assms, of g] obtain c where "snd (wrapped g) = g\<lparr>self_cache := c\<rparr>" ..
  with w have g': "g' = g\<lparr>self_cache := c\<rparr>" by simp
  show "\<exists>c. snd (cache name wrapped g) = g\<lparr>self_cache := c\<rparr>"
  proof (cases "self_cache g name")
    case None
    show ?thesis
    proof (cases r)
      case (Inl e)
      with None w have "snd (cache name wrapped g) = g'" by (simp add: cache_def)
      with g' show ?thesis by blast
    next
      case (Inr v)
      with None w have "snd (cache name wrapped g) = g'\<lparr>self_cache := (self_cache g')(name \<mapsto> v)\<rparr>"
        by (simp add: cache_def)
      also have "\<dots> = g\<lparr>self_cache := c(name \<mapsto> v)\<rparr>" by (simp add: g')
      finally show ?thesis by blast
    qed
  next
    case (Some v)
    then have "snd (cache name wrapped g) = g" by (simp add: cache_def)
    with ex_cache_self [of g] show ?thesis by simp
  qed
qed



lemma cache_only_self:
  assumes "\<And>self. cache_only (f self)"
  shows "cache_only (\<lambda>self. f self self)"
  using assms by (simp add: cache_only_def)

lemma cache_only_if:
  assumes "cache_only a" and "cache_only b"
  shows "cache_only (\<lambda>self. if P self then a self else b self)"
  using assms by (simp add: cache_only_def)

lemma cache_only_area_wrapped: "cache_only area_wrapped"
  unfolding area_wrapped_def by (rule cache_only_self) simp

lemma cache_only_crop_wrapped: "cache_only crop_wrapped"
  unfolding crop_wrapped_def by (rule cache_only_self) (simp add: cache_only_bind)

lemma cache_only_mask_wrapped: "cache_only mask_wrapped"
  unfolding mask_wrapped_def by (rule cache_only_self) (simp add: cache_only_bind)

lemma cache_only_mask: "cache_only mask"
  unfolding mask_def by (rule cache_only_cache [OF cache_only_mask_wrapped])

lemma cache_only_masked_wrapped: "cache_only masked_wrapped"
  unfolding masked_wrapped_def
  by (rule cache_only_self) (simp add: cache_only_bind cache_only_mask split: val.split)

lemma cache_only_masked: "cache_only masked"
  unfolding masked_def by (rule cache_only_cache [OF cache_only_masked_wrapped])

lemma cache_only_coordinates_wrapped: "cache_only coordinates_wrapped"
  unfolding coordinates_wrapped_def Let_def
  by (rule cache_only_self) (simp add: cache_only_bind)

lemma cache_only_coordinates: "cache_only coordinates"
  unfolding coordinates_def by (rule cache_only_cache [OF cache_only_coordinates_wrapped])

lemma cache_only_centroid_wrapped: "cache_only centroid_wrapped"
  unfolding centroid_wrapped_def
  by (simp add: cache_only_bind cache_only_coordinates split: val.split)

lemma cache_only_centroid: "cache_only centroid"
  unfolding centroid_def by (rule cache_only_cache [OF cache_only_centroid_wrapped])

lemma cache_only_spatial_moments_wrapped: "cache_only (spatial_moments_wrapped ext)"
  unfolding spatial_moments_wrapped_def
  by (simp add: cache_only_bind cache_only_masked cache_only_if split: val.split)

lemma cache_only_spatial_moments: "cache_only (spatial_moments ext)"
  unfolding spatial_moments_def by (rule cache_only_cache [OF cache_only_spatial_moments_wrapped])

lemma cache_only_local_centroid_wrapped: "cache_only (local_centroid_wrapped ext)"
  unfolding local_centroid_wrapped_def
  by (rule cache_only_bind [OF cache_only_spatial_moments], rule cache_only_self)
     (simp add: cache_only_bind split: val.split)

lemma cache_only_local_centroid: "cache_only (local_centroid ext)"
  unfolding local_centroid_def by (rule cache_only_cache [OF cache_only_local_centroid_wrapped])


lemma cache_only_central_moments_wrapped: "cache_only (central_moments_wrapped ext)"
  unfolding central_moments_wrapped_def
  by (rule cache_only_bind [OF cache_only_local_centroid], rule cache_only_self)
     (simp add: cache_only_bind split: val.split)

lemma cache_only_central_moments: "cache_only (central_moments ext)"
  unfolding central_moments_def by (rule cache_only_cache [OF cache_only_central_moments_wrapped])

lemma cache_only_convex_hull_wrapped: "cache_only (convex_hull_wrapped ext)"
  unfolding convex_hull_wrapped_def
  by (simp add: cache_only_bind cache_only_mask split: val.split)

lemma cache_only_crop: "cache_only crop"
  unfolding crop_def by (rule cache_only_cache [OF cache_only_crop_wrapped])

lemma cache_only_edge_wrapped: "cache_only (edge_wrapped ext)"
  unfolding edge_wrapped_def
  by (simp add: cache_only_bind cache_only_mask cache_only_crop split: val.split)

lemma cache_only_inertia_tensor_wrapped: "cache_only (inertia_tensor_wrapped ext)"
  unfolding inertia_tensor_wrapped_def
  by (rule cache_only_bind [OF cache_only_central_moments], rule cache_only_self)
     (simp add: cache_only_bind split: val.split)

lemma cache_only_inertia_tensor: "cache_only (inertia_tensor ext)"
  unfolding inertia_tensor_def by (rule cache_only_cache [OF cache_only_inertia_tensor_wrapped])

lemma cache_only_inertia_tensor_eigenvalues_wrapped:
  "cache_only (inertia_tensor_eigenvalues_wrapped ext)"
  unfolding inertia_tensor_eigenvalues_wrapped_def
  by (rule cache_only_bind [OF cache_only_inertia_tensor], rule cache_only_self)
     (simp add: cache_only_bind split: val.split)

lemma cache_only_maximum_intensity_wrapped:
  "cache_only feature_color_object_maximum_intensity_wrapped"
  unfolding feature_color_object_maximum_intensity_wrapped_def
  by (simp add: cache_only_bind cache_only_masked split: val.split)

lemma cache_only_derived_quantities:
  "(name, wrapped) \<in> set (derived_quantities ext) \<Longrightarrow> cache_only wrapped"
  by (auto simp: derived_quantities_def cache_only_area_wrapped cache_only_centroid_wrapped
      cache_only_coordinates_wrapped cache_only_crop_wrapped cache_only_local_centroid_wrapped
      cache_only_mask_wrapped cache_only_masked_wrapped cache_only_spatial_moments_wrapped
      cache_only_central_moments_wrapped cache_only_convex_hull_wrapped cache_only_edge_wrapped
      cache_only_inertia_tensor_wrapped cache_only_inertia_tensor_eigenvalues_wrapped
      cache_only_maximum_intensity_wrapped)

lemma cache_hit: "self_cache g name = Some v \<Longrightarrow> cache name wrapped g = (Inr v, g)"
  by (simp add: cache_def)

lemma cache_miss:
  "self_cache g name = None \<Longrightarrow>
   cache name wrapped g =
     (case wrapped g of
        (Inl e, g') \<Rightarrow> (Inl e, g')
      | (Inr v, g') \<Rightarrow> (Inr v, g'\<lparr>self_cache := (self_cache g')(name \<mapsto> v)\<rparr>))"
  by (simp add: cache_def)

lemma cache_stores:
  assumes "cache name wrapped g = (Inr v, g1)"
  shows "self_cache g1 name = Some v"
proof (cases "self_cache g name")
  case None
  with assms show ?thesis
    by (auto simp: cache_miss split: prod.splits sum.splits)
next
  case (Some w)
  with assms show ?thesis by (simp add: cache_hit)
qed

subsection \<open>The decorator\<close>

text \<open>
  Claim C4 fails. The cache is never cleared: with \<^verbatim>\<open>masked\<close> as the only member, the two
  calls of \<^verbatim>\<open>__next__\<close> for the two objects of \<open>two_label\<close> run the function once in all,
  for the first object, and both rows hold the array of the first object; with the second
  object current, two more requests of \<^verbatim>\<open>masked\<close> run the function not once but never. And
  a function that raises stores nothing: for the single object of \<open>row_label\<close> under a
  three-channel image, where \<^verbatim>\<open>masked\<close> raises ValueError, two requests run the function
  twice.
\<close>

theorem computed_once_counterexample:
  "fst (next_n masked_members 2 two_generator_counting)
     = [Inr [Float32Arr \<lparr>shape = [1, 1], data = [Float32 (1 / 2)]\<rparr>],
        Inr [Float32Arr \<lparr>shape = [1, 1], data = [Float32 (1 / 2)]\<rparr>]]
   \<and> self_object second_object_generator = Some [(0, 1), (1, 2)]
   \<and> Generator.more second_object_generator = 1
   \<and> fst (counted_masked second_object_generator)
       = Inr (Float32Arr \<lparr>shape = [1, 1], data = [Float32 (1 / 2)]\<rparr>)
   \<and> fst (counted_masked (snd (counted_masked second_object_generator)))
       = Inr (Float32Arr \<lparr>shape = [1, 1], data = [Float32 (1 / 2)]\<rparr>)
   \<and> Generator.more (snd (counted_masked (snd (counted_masked second_object_generator)))) = 1
   \<and> fst (counted_masked channel_generator_counting) = Inl ValueError
   \<and> fst (counted_masked (snd (counted_masked channel_generator_counting))) = Inl ValueError
   \<and> Generator.more (snd (counted_masked (snd (counted_masked channel_generator_counting)))) = 2"
proof -
  have a: "fst (next_n masked_members 2 two_generator_counting)
     = [Inr [Float32Arr \<lparr>shape = [1, 1], data = [Float32 (1 / 2)]\<rparr>],
        Inr [Float32Arr \<lparr>shape = [1, 1], data = [Float32 (1 / 2)]\<rparr>]]"
    by code_simp
  have b: "self_object second_object_generator = Some [(0, 1), (1, 2)]"
    by code_simp
  have c: "Generator.more second_object_generator = 1"
    by code_simp
  have d: "fst (counted_masked second_object_generator)
       = Inr (Float32Arr \<lparr>shape = [1, 1], data = [Float32 (1 / 2)]\<rparr>)"
    by code_simp
  have e: "fst (counted_masked (snd (counted_masked second_object_generator)))
       = Inr (Float32Arr \<lparr>shape = [1, 1], data = [Float32 (1 / 2)]\<rparr>)"
    by code_simp
  have f: "Generator.more (snd (counted_masked (snd (counted_masked second_object_generator)))) = 1"
    by code_simp
  have g: "fst (counted_masked channel_generator_counting) = Inl ValueError"
    by code_simp
  have h: "fst (counted_masked (snd (counted_masked channel_generator_counting))) = Inl ValueError"
    by code_simp
  have i: "Generator.more (snd (counted_masked (snd (counted_masked channel_generator_counting)))) = 2"
    by code_simp
  from a b c d e f g h i show ?thesis by (intro conjI)
qed

text \<open>
  Claim C4 as amended. For every function under the decorator and every generator: a
  request whose key is in the cache, whether it was cached for the current object or for
  an earlier one, returns the cached value and leaves the generator as it is, so that
  nothing is run; a request whose key is absent runs the function once; when the function
  returns, its value is stored under the key in the generator that the function left
  behind, nothing else is changed, the value is returned, and the next request returns
  the same value whatever function is under the decorator; when the function raises, the
  exception is passed on and nothing is stored. Each of the fourteen functions under the
  decorator writes nothing but the cache.
\<close>

theorem cache_runs_on_miss_only:
  "(self_cache g name = Some v \<longrightarrow> cache name wrapped g = (Inr v, g))
   \<and> (self_cache g name = None \<and> wrapped g = (Inr v, g') \<longrightarrow>
        cache name wrapped g = (Inr v, g'\<lparr>self_cache := (self_cache g')(name \<mapsto> v)\<rparr>)
        \<and> cache name other (g'\<lparr>self_cache := (self_cache g')(name \<mapsto> v)\<rparr>)
            = (Inr v, g'\<lparr>self_cache := (self_cache g')(name \<mapsto> v)\<rparr>))
   \<and> (self_cache g name = None \<and> wrapped g = (Inl e, g') \<longrightarrow> cache name wrapped g = (Inl e, g'))
   \<and> (\<forall>(key, f) \<in> set (derived_quantities ext :: 't members). cache_only f)"
proof (intro conjI impI)
  show "\<forall>(key, f) \<in> set (derived_quantities ext :: 't members). cache_only f"
    using cache_only_derived_quantities by blast
qed (simp_all add: cache_def)

theorem cache_runs_on_miss_only_witness:
  "self_cache (two_generator\<lparr>self_cache := [''area'' \<mapsto> IntV 3]\<rparr>) ''area'' = Some (IntV 3)
   \<and> cache ''area'' area_wrapped (two_generator\<lparr>self_cache := [''area'' \<mapsto> IntV 3]\<rparr>)
       = (Inr (IntV 3), two_generator\<lparr>self_cache := [''area'' \<mapsto> IntV 3]\<rparr>)
   \<and> self_cache two_generator ''area'' = None
   \<and> area_wrapped two_generator = (Inr (IntV 3), two_generator)
   \<and> cache ''area'' area_wrapped two_generator
       = (Inr (IntV 3), two_generator\<lparr>self_cache := [''area'' \<mapsto> IntV 3]\<rparr>)
   \<and> cache ''area'' centroid_wrapped (two_generator\<lparr>self_cache := [''area'' \<mapsto> IntV 3]\<rparr>)
       = (Inr (IntV 3), two_generator\<lparr>self_cache := [''area'' \<mapsto> IntV 3]\<rparr>)
   \<and> self_cache channel_generator_counting ''masked'' = None
   \<and> fst (masked_wrapped channel_generator_counting) = Inl ValueError
   \<and> cache ''masked'' masked_wrapped channel_generator_counting
       = (Inl ValueError, snd (masked_wrapped channel_generator_counting))
   \<and> (''masked'', masked_wrapped) \<in> set (derived_quantities example_routines :: unit members)
   \<and> cache_only (masked_wrapped :: (unit, val) py_method)"
proof -
  let ?hit = "two_generator\<lparr>self_cache := [''area'' \<mapsto> IntV 3]\<rparr>"
  have hit: "self_cache ?hit ''area'' = Some (IntV 3)"
    by simp
  have miss: "self_cache two_generator ''area'' = None"
    by (simp add: two_generator_def)
  have run: "area_wrapped two_generator = (Inr (IntV 3), two_generator)"
    by (simp add: area_wrapped_def return_def np_sum_def two_generator_def two_label_def)
  have stored: "two_generator\<lparr>self_cache := (self_cache two_generator)(''area'' \<mapsto> IntV 3)\<rparr> = ?hit"
    by (simp add: two_generator_def)
  have miss': "self_cache channel_generator_counting ''masked'' = None"
    by (simp add: channel_generator_counting_def)
  have raised: "fst (masked_wrapped channel_generator_counting) = Inl ValueError"
    by code_simp
  then have run': "masked_wrapped channel_generator_counting
      = (Inl ValueError, snd (masked_wrapped channel_generator_counting))"
    by (simp add: prod_eq_iff)
  have member: "(''masked'', masked_wrapped) \<in> set (derived_quantities example_routines :: unit members)"
    by (simp add: derived_quantities_def)
  note first = cache_runs_on_miss_only [where g = "?hit" and name = "''area''" and v = "IntV 3"
      and wrapped = area_wrapped and ext = example_routines, where ?'t = unit]
  note second = cache_runs_on_miss_only [where g = two_generator and name = "''area''"
      and v = "IntV 3" and g' = two_generator and wrapped = area_wrapped
      and other = centroid_wrapped and ext = example_routines, where ?'t = unit]
  note third = cache_runs_on_miss_only [where g = channel_generator_counting
      and name = "''masked''" and e = ValueError
      and g' = "snd (masked_wrapped channel_generator_counting)" and wrapped = masked_wrapped
      and ext = example_routines, where ?'t = unit]
  from first hit have 1: "cache ''area'' area_wrapped ?hit = (Inr (IntV 3), ?hit)"
    by blast
  from second miss run have "cache ''area'' area_wrapped two_generator
       = (Inr (IntV 3), two_generator\<lparr>self_cache := (self_cache two_generator)(''area'' \<mapsto> IntV 3)\<rparr>)
     \<and> cache ''area'' centroid_wrapped
          (two_generator\<lparr>self_cache := (self_cache two_generator)(''area'' \<mapsto> IntV 3)\<rparr>)
       = (Inr (IntV 3), two_generator\<lparr>self_cache := (self_cache two_generator)(''area'' \<mapsto> IntV 3)\<rparr>)"
    by blast
  then have 2: "cache ''area'' area_wrapped two_generator = (Inr (IntV 3), ?hit)"
    and 3: "cache ''area'' centroid_wrapped ?hit = (Inr (IntV 3), ?hit)"
    by (simp_all only: stored)
  from third miss' run' have 4: "cache ''masked'' masked_wrapped channel_generator_counting
       = (Inl ValueError, snd (masked_wrapped channel_generator_counting))"
    by blast
  from third member have 5: "cache_only (masked_wrapped :: (unit, val) py_method)"
    by blast
  from hit 1 miss run 2 3 miss' raised 4 member 5 show ?thesis
    by (intro conjI)
qed




subsection \<open>The area\<close>

text \<open>
  Claim C8. In a generator whose cache holds no area, or the area computed from its label
  image, and whose label image has a sum that fits the 64-bit integer in which numpy adds,
  \<^verbatim>\<open>area\<close> is the sum of all values of the label image; the current object and the object
  index have no part in it, before and after the value was cached.
\<close>

theorem area_sum_of_label:
  assumes "self_cache g ''area'' = None
           \<or> self_cache g ''area'' = Some (IntV (sum_list (data (self_label g))))"
      and "- (2 ^ 63) \<le> sum_list (data (self_label g))"
      and "sum_list (data (self_label g)) < 2 ^ 63"
  shows "fst (area g) = Inr (IntV (sum_list (data (self_label g))))
       \<and> fst (area (g\<lparr>self_object := ob, self_object_index := i\<rparr>)) = fst (area g)
       \<and> fst (area ((snd (area g))\<lparr>self_object := ob, self_object_index := i\<rparr>)) = fst (area g)"
  using assms
  by (auto simp: area_def cache_def area_wrapped_def return_def np_sum_def)

theorem area_sum_of_label_witness:
  "self_cache two_generator ''area'' = None
   \<and> - (2 ^ 63) \<le> sum_list (data (self_label two_generator))
   \<and> sum_list (data (self_label two_generator)) < 2 ^ 63
   \<and> fst (area two_generator) = Inr (IntV 3)
   \<and> fst (area (two_generator\<lparr>self_object := Some [(0, 1), (1, 2)], self_object_index := 2\<rparr>))
       = fst (area two_generator)"
proof -
  have none: "self_cache two_generator ''area'' = None"
    by (simp add: two_generator_def)
  have label: "sum_list (data (self_label two_generator)) = 3"
    by (simp add: two_generator_def two_label_def)
  have lower: "- (2 ^ 63) \<le> sum_list (data (self_label two_generator))"
    and upper: "sum_list (data (self_label two_generator)) < 2 ^ 63"
    by (simp_all add: label)
  from area_sum_of_label [where g = two_generator and ob = "Some [(0, 1), (1, 2)]" and i = 2]
    none lower upper
  have "fst (area two_generator) = Inr (IntV (sum_list (data (self_label two_generator))))
       \<and> fst (area (two_generator\<lparr>self_object := Some [(0, 1), (1, 2)], self_object_index := 2\<rparr>))
           = fst (area two_generator)"
    by blast
  with none lower upper label show ?thesis by simp
qed

subsection \<open>Construction and iteration\<close>

lemmas init_simps = Generator_init_def find_objects_def bounding_box_def item_def ndim_def
  list_getitem_def img_as_float32_def upto.simps upt_rec numeral_nat

lemma two_generator_init: "Generator_init two_label two_image = Inr two_generator"
  by (simp add: init_simps two_label_def two_image_def two_generator_def)

lemma fold_max_Max: "fold max xs (x::int) = Max (set (x # xs))"
  by (rule Max.set_eq_fold [symmetric])

lemma find_objects_length:
  assumes "data label = x # xs"
  shows "\<exists>objects. find_objects label = Inr objects \<and> length objects = nat (Max (set (data label)))"
  using assms by (simp add: find_objects_def fold_max_Max)

lemma find_objects_empty: "data label = [] \<Longrightarrow> find_objects label = Inl ValueError"
  by (simp add: find_objects_def)

lemma list_getitem_first: "objects \<noteq> [] \<Longrightarrow> list_getitem objects 0 = Inr (hd objects)"
  by (cases objects) (simp_all add: list_getitem_def)

lemma list_getitem_Nil: "list_getitem [] i = Inl IndexError"
  by (simp add: list_getitem_def)



lemma Generator_init_objects:
  assumes "find_objects label = Inr objects" and "objects \<noteq> []"
  shows "Generator_init label img =
     Inr \<lparr>self_cache = Map.empty,
          self_image = img_as_float32 img,
          self_label = label,
          self_multichannel = tuple_less (shape label) (shape img),
          self_objects = objects,
          self_object_index = 1,
          self_object = hd objects,
          self_volumetric = False,
          self_cropped = None,
          self_spatial_axes = [0..<ndim label]\<rparr>"
  using assms by (simp add: Generator_init_def list_getitem_first)











text \<open>
  Claim C2 fails by an off-by-one: \<^verbatim>\<open>__next__\<close> adds one to \<^verbatim>\<open>object_index\<close> before it
  evaluates the members, so \<^verbatim>\<open>_feature_metadata_object_index\<close> is 2 in the first row and 3
  in the second row of the generator over \<open>two_label\<close>.
\<close>

theorem object_index_rows:
  "Generator_init two_label two_image = Inr two_generator
   \<and> fst (next_n index_members 2 two_generator) = [Inr [IntV 2, FloatV (Approx 0)], Inr [IntV 3, FloatV (Approx 0)]]"
proof -
  have "fst (next_n index_members 2 two_generator) = [Inr [IntV 2, FloatV (Approx 0)], Inr [IntV 3, FloatV (Approx 0)]]"
    by code_simp
  with two_generator_init show ?thesis by simp
qed

text \<open>
  Claim C3 fails: \<^verbatim>\<open>coordinates\<close> takes the nonzero pixels of the whole intensity image and
  adds the start of the object's slice to their indices. For the object of \<open>diag_label\<close>,
  whose slice holds the single pixel (1, 1), the result has two rows, (1, 1) and (2, 2):
  the first comes from the pixel (0, 0) outside the slice, the second is no index of the
  image at all.
\<close>

theorem coordinates_of_diag:
  "Generator_init diag_label diag_image = Inr diag_generator
   \<and> fst (coordinates diag_generator) = Inr (IntArr \<lparr>shape = [2, 2], data = [1, 1, 2, 2]\<rparr>)"
proof -
  have "Generator_init diag_label diag_image = Inr diag_generator"
    by (simp add: init_simps diag_label_def diag_image_def diag_generator_def)
  moreover have "fst (coordinates diag_generator) = Inr (IntArr \<lparr>shape = [2, 2], data = [1, 1, 2, 2]\<rparr>)"
    by code_simp
  ultimately show ?thesis by simp
qed




text \<open>
  Claim C9 fails in its second half: the constructor never compares the two shapes. A label
  image of shape (1, 1) with an intensity image of shape (1, 2), which is neither the same
  shape nor the shape with a channel axis appended, is accepted.
\<close>

theorem construction_without_shape_check_counterexample:
  "shape one_label = [1, 1] \<and> shape wide_image = [1, 2]
   \<and> Generator_init one_label wide_image = Inr wide_generator"
  by (simp add: init_simps one_label_def wide_image_def wide_generator_def)

text \<open>
  Claim C9 as amended. A label image without a positive value makes the constructor raise
  (IndexError, or ValueError when the array is empty); a label image with a positive value
  is accepted with every intensity image: the generator holds the converted image, the
  objects that \<^verbatim>\<open>find_objects\<close> returns with the first of them as the current object, the
  object index 1 and an empty cache, and its flag \<^verbatim>\<open>multichannel\<close> is the lexicographic
  comparison of the two shapes.
\<close>

theorem construction_checks_labels_only:
  "((\<forall>l \<in> set (data label). l \<le> 0)
      \<longrightarrow> Generator_init label img = Inl (if data label = [] then ValueError else IndexError))
   \<and> ((\<exists>l \<in> set (data label). 0 < l)
      \<longrightarrow> (\<exists>objects. find_objects label = Inr objects \<and> objects \<noteq> []
            \<and> Generator_init label img =
                Inr \<lparr>self_cache = Map.empty,
                     self_image = img_as_float32 img,
                     self_label = label,
                     self_multichannel = tuple_less (shape label) (shape img),
                     self_objects = objects,
                     self_object_index = 1,
                     self_object = hd objects,
                     self_volumetric = False,
                     self_cropped = None,
                     self_spatial_axes = [0..<ndim label]\<rparr>))"
proof (intro conjI impI)
  assume none: "\<forall>l \<in> set (data label). l \<le> 0"
  show "Generator_init label img = Inl (if data label = [] then ValueError else IndexError)"
  proof (cases "data label")
    case Nil
    then show ?thesis by (simp add: Generator_init_def find_objects_empty)
  next
    case (Cons x xs)
    define M where "M = fold max xs x"
    have "M = Max (set (data label))" by (simp only: M_def Cons fold_max_Max)
    also from none Cons have "\<dots> \<le> 0" by (intro Max.boundedI) auto
    finally have "[1..M] = []" by simp
    with Cons show ?thesis
      by (simp add: Generator_init_def find_objects_def list_getitem_Nil M_def [symmetric])
  qed
next
  assume "\<exists>l \<in> set (data label). 0 < l"
  then obtain l where l: "l \<in> set (data label)" "0 < l" by blast
  then obtain x xs where Cons: "data label = x # xs" by (cases "data label") auto
  from l have "l \<le> Max (set (data label))" by simp
  with l(2) have "0 < Max (set (data label))" by linarith
  then have pos: "0 < nat (Max (set (data label)))" by linarith
  from find_objects_length [OF Cons] obtain objects
    where objects: "find_objects label = Inr objects" "length objects = nat (Max (set (data label)))"
    by blast
  with pos have nonempty: "objects \<noteq> []" by auto
  from Generator_init_objects [OF objects(1) nonempty, of img] objects(1) nonempty
  show "\<exists>objects. find_objects label = Inr objects \<and> objects \<noteq> []
            \<and> Generator_init label img =
                Inr \<lparr>self_cache = Map.empty,
                     self_image = img_as_float32 img,
                     self_label = label,
                     self_multichannel = tuple_less (shape label) (shape img),
                     self_objects = objects,
                     self_object_index = 1,
                     self_object = hd objects,
                     self_volumetric = False,
                     self_cropped = None,
                     self_spatial_axes = [0..<ndim label]\<rparr>"
    by blast
qed

theorem construction_checks_labels_only_witness:
  "data background_label = [0]
   \<and> Generator_init background_label wide_image = Inl IndexError
   \<and> data one_label = [1]
   \<and> find_objects one_label = Inr [Some [(0, 1), (0, 1)]]
   \<and> Generator_init one_label wide_image = Inr wide_generator"
proof -
  have none: "\<forall>l \<in> set (data background_label). l \<le> 0"
    by (simp add: background_label_def)
  have nonempty: "data background_label \<noteq> []"
    by (simp add: background_label_def)
  have some: "\<exists>l \<in> set (data one_label). 0 < l"
    by (simp add: one_label_def)
  have objects: "find_objects one_label = Inr [Some [(0, 1), (0, 1)]]"
    by (simp add: init_simps one_label_def)
  from construction_checks_labels_only [of background_label wide_image] none nonempty
  have raised: "Generator_init background_label wide_image = Inl IndexError" by simp
  from construction_checks_labels_only [of one_label wide_image] some objects
  have "Generator_init one_label wide_image =
      Inr \<lparr>self_cache = Map.empty,
           self_image = img_as_float32 wide_image,
           self_label = one_label,
           self_multichannel = tuple_less (shape one_label) (shape wide_image),
           self_objects = [Some [(0, 1), (0, 1)]],
           self_object_index = 1,
           self_object = hd [Some [(0, 1), (0, 1)]],
           self_volumetric = False,
           self_cropped = None,
           self_spatial_axes = [0..<ndim one_label]\<rparr>"
    by auto
  then have "Generator_init one_label wide_image = Inr wide_generator"
    by (simp add: wide_generator_def img_as_float32_def wide_image_def one_label_def ndim_def
        upt_rec numeral_nat)
  moreover have "data background_label = [0]" and "data one_label = [1]"
    by (simp_all add: background_label_def one_label_def)
  ultimately show ?thesis using raised objects by (intro conjI)
qed


subsection \<open>Spatial moments\<close>















subsection \<open>The flag \<^verbatim>\<open>volumetric\<close>\<close>













subsection \<open>Objects without foreground pixels\<close>













end
